theory Spec2Isabelle
  imports Main
begin

section \<open>SSH key selection of the cloudchamber create command\<close>

text \<open>
  The development follows \<^verbatim>\<open>packages/wrangler/src/cloudchamber/create.ts\<close>.
  The two functions of interest are asynchronous: they await the key listing, the
  interactive prompts and the deployment service. Each await is a step on an explicit
  world that holds what the collaborators are going to answer and a log of the calls made
  so far, in order.
\<close>

subsection \<open>Values exchanged with the prompt library\<close>

text \<open>
  Modelled from the spec: the type \<^verbatim>\<open>Arg\<close> is imported from
  \<^verbatim>\<open>@cloudflare/cli/interactive\<close>, which is not among the sources. The
  prompts of the external interfaces deliver a boolean (yes/no), a chosen value (a string),
  the chosen values (an array of strings) or nothing; numbers are carried as integers and
  are only tested for being zero.
\<close>

datatype Arg =
    ArgUndefined
  | ArgString string
  | ArgArray "string list"
  | ArgBoolean bool
  | ArgNumber int

text \<open>The conversion to a boolean that \<^verbatim>\<open>if (v)\<close> and \<^verbatim>\<open>v ? a : b\<close> apply.\<close>

fun truthy :: "Arg \<Rightarrow> bool" where
  "truthy ArgUndefined = False"
| "truthy (ArgString s) = (s \<noteq> [])"
| "truthy (ArgArray xs) = True"
| "truthy (ArgBoolean b) = b"
| "truthy (ArgNumber n) = (n \<noteq> 0)"

text \<open>An optional string, as \<^verbatim>\<open>SSHPublicKeyID | undefined\<close>, seen as a value.\<close>

fun optString :: "string option \<Rightarrow> Arg" where
  "optString None = ArgUndefined"
| "optString (Some s) = ArgString s"

subsection \<open>Data\<close>

text \<open>A key of the account, as the listing returns it: \<^verbatim>\<open>{id, name}\<close>.\<close>

record SSHPublicKeyItem =
  key_id :: string
  key_name :: string

datatype promptType = Confirm | Select | Multiselect

record promptOption =
  opt_label :: string
  opt_value :: string

text \<open>
  The object handed to \<^verbatim>\<open>inputPrompt\<close>. A field the call does not set is
  \<open>None\<close>.
\<close>

record promptConfig =
  question :: string
  prompt_type :: promptType
  helpText :: string
  defaultValue :: Arg
  prompt_label :: string
  options :: "promptOption list option"
  validate :: "(Arg \<Rightarrow> string option) option"

text \<open>
  The flags of the command that the code under study reads. A flag that was not given is
  \<open>None\<close> (\<^verbatim>\<open>undefined\<close>).
\<close>

record args =
  arg_image :: "string option"
  arg_location :: "string option"
  arg_var :: "string list option"
  arg_label :: "string list option"
  allSshKeys :: "bool option"
  sshKeyId :: "string list option"
  arg_vcpu :: "int option"
  arg_memory :: "string option"
  ipv4 :: "bool option"


datatype AssignIPv4 = PREDEFINED

record nameValue =
  nv_name :: string
  nv_value :: string

text \<open>The body of the deployment creation call.\<close>

record deploymentRequest =
  req_image :: string
  req_location :: string
  ssh_public_key_ids :: "string list"
  environment_variables :: "nameValue list option"
  labels :: "nameValue list option"
  req_vcpu :: "int option"
  req_memory :: "string option"
  network :: "AssignIPv4 option"

subsection \<open>The world: collaborators and the log of calls\<close>

datatype event =
    PollSSHKeys
  | InputPrompt promptConfig
  | CreateDeploymentV2 deploymentRequest
  | ConsoleLog string

text \<open>
  \<open>sshKeys\<close> is what the key listing answers (\<open>Inl\<close> a failure),
  \<open>promptAnswers\<close> the values the prompt library is going to deliver, one per
  prompt, \<open>deployment\<close> what the deployment service answers, rendered as JSON
  (\<open>Inl\<close> a failure), and \<open>events\<close> the calls made so far, oldest first.
\<close>

record world =
  sshKeys :: "string + SSHPublicKeyItem list"
  promptAnswers :: "Arg list"
  deployment :: "string + string"
  events :: "event list"

text \<open>
  How an awaited call ends: with a value, with a rejection that propagates as an
  exception, or not at all (the user never answers, or cancels and the process exits).
\<close>

datatype 'a outcome = Returned 'a | Threw string | Pending

fun await :: "'a outcome \<times> world \<Rightarrow> ('a \<Rightarrow> world \<Rightarrow> 'b outcome \<times> world) \<Rightarrow> 'b outcome \<times> world" where
  "await (Returned x, w) k = k x w"
| "await (Threw e, w) k = (Threw e, w)"
| "await (Pending, w) k = (Pending, w)"

definition emit :: "event \<Rightarrow> world \<Rightarrow> world" where
  "emit e w = w\<lparr>events := events w @ [e]\<rparr>"

text \<open>
  Modelled from the spec: \<^verbatim>\<open>pollSSHKeysUntilCondition\<close> lives in
  \<^verbatim>\<open>./cli\<close>, which is not among the sources. It is the available-keys
  provider: it returns the current list of key records of the account, or fails. Both
  call sites pass the condition \<^verbatim>\<open>() => true\<close>, which the first listing
  satisfies.
\<close>

definition pollSSHKeysUntilCondition :: "world \<Rightarrow> SSHPublicKeyItem list outcome \<times> world" where
  "pollSSHKeysUntilCondition w =
     (case sshKeys w of
        Inl err \<Rightarrow> (Threw err, emit PollSSHKeys w)
      | Inr keyItems \<Rightarrow> (Returned keyItems, emit PollSSHKeys w))"

text \<open>
  Modelled from the spec: \<^verbatim>\<open>inputPrompt\<close> comes from
  \<^verbatim>\<open>@cloudflare/cli/interactive\<close>, which is not among the sources. It shows
  one prompt and delivers the user's eventual answer; rejecting a submission and asking
  again is its own business and stays inside the one call.
\<close>

definition inputPrompt :: "promptConfig \<Rightarrow> world \<Rightarrow> Arg outcome \<times> world" where
  "inputPrompt promptCfg w =
     (case promptAnswers w of
        [] \<Rightarrow> (Pending, emit (InputPrompt promptCfg) w)
      | answer # rest \<Rightarrow>
          (Returned answer, emit (InputPrompt promptCfg) (w\<lparr>promptAnswers := rest\<rparr>)))"

subsection \<open>askWhichSSHKeysDoTheyWantToAdd\<close>

text \<open>
  The three prompt descriptions of the function, as it builds them. The first one reads
  \<^verbatim>\<open>keyItems[0]\<close> and is built only where the list has one element.
\<close>

definition confirmSingleKeyPrompt :: "SSHPublicKeyItem list \<Rightarrow> promptConfig" where
  "confirmSingleKeyPrompt keyItems =
     \<lparr> question = ''Do you want to add the SSH key '' @ key_name (keyItems ! 0) @ ''?'',
       prompt_type = Confirm,
       helpText = ''You need this to SSH into the VM'',
       defaultValue = ArgBoolean False,
       prompt_label = '''',
       options = None,
       validate = None \<rparr>"

definition chooseModePrompt :: promptConfig where
  "chooseModePrompt =
     \<lparr> question = ''You have multiple SSH keys in your account, what do you want to do for this new deployment?'',
       prompt_type = Select,
       helpText = '''',
       defaultValue = ArgBoolean False,
       prompt_label = ''ssh'',
       options = Some
         [ \<lparr> opt_label = ''Add all of them'', opt_value = ''all'' \<rparr>,
           \<lparr> opt_label = ''Select the keys'', opt_value = ''select'' \<rparr>,
           \<lparr> opt_label = ''Don't add any SSH keys'', opt_value = ''none'' \<rparr> ],
       validate = None \<rparr>"

text \<open>The validation callback of the multi-select: \<open>None\<close> accepts, \<open>Some\<close> is the message.\<close>

definition validateSelection :: "Arg \<Rightarrow> string option" where
  "validateSelection values =
     (case values of
        ArgArray xs \<Rightarrow> (if length xs = 0 then Some ''Select atleast one ssh key!'' else None)
      | _ \<Rightarrow> Some ''unknown error'')"

definition selectKeysPrompt :: "SSHPublicKeyItem list \<Rightarrow> promptConfig" where
  "selectKeysPrompt keyItems =
     \<lparr> question = ''Select the keys you want to add'',
       prompt_type = Multiselect,
       helpText = ''Select one key with the 'space' key. Submit with 'enter'' @ [CHR 0x27],
       defaultValue = ArgArray [],
       prompt_label = '''',
       options = Some (map (\<lambda>keyOpt. \<lparr> opt_label = key_name keyOpt, opt_value = key_id keyOpt \<rparr>) keyItems),
       validate = Some validateSelection \<rparr>"

text \<open>
  The function returns what it is given by the multi-select as it is: the annotation
  \<^verbatim>\<open>string[]\<close> is not checked when the program runs. Its result is therefore
  a value, an array on every other path.
\<close>

definition askWhichSSHKeysDoTheyWantToAdd :: "args \<Rightarrow> string option \<Rightarrow> world \<Rightarrow> Arg outcome \<times> world" where
  "askWhichSSHKeysDoTheyWantToAdd a key w =
     await (pollSSHKeysUntilCondition w) (\<lambda>keyItems w1.
       let keys = map key_id keyItems in
       if allSshKeys a = Some True then (Returned (ArgArray keys), w1)
       else if sshKeyId a \<noteq> None \<and> length (the (sshKeyId a)) \<noteq> 0 then
         (Returned (ArgArray
            (if truthy (optString key) then the (sshKeyId a) @ [the key] else the (sshKeyId a))), w1)
       else if length keys = 1 then
         await (inputPrompt (confirmSingleKeyPrompt keyItems) w1) (\<lambda>yes w2.
           if truthy yes then (Returned (ArgArray keys), w2)
           else (Returned (ArgArray []), w2))
       else if length keys \<le> 1 then (Returned (ArgArray []), w1)
       else
         await (inputPrompt chooseModePrompt w1) (\<lambda>res w2.
           if res = ArgString ''all'' then (Returned (ArgArray keys), w2)
           else if res = ArgString ''select'' then
             await (inputPrompt (selectKeysPrompt keyItems) w2) (\<lambda>resKeys w3.
               (Returned resKeys, w3))
           else (Returned (ArgArray []), w2)))"

subsection \<open>createCommand\<close>








subsection \<open>Reading the log\<close>

text \<open>The prompts shown, and the number of key listings, among the calls of a log.\<close>

fun promptsShown :: "event list \<Rightarrow> promptConfig list" where
  "promptsShown [] = []"
| "promptsShown (InputPrompt c # es) = c # promptsShown es"
| "promptsShown (e # es) = promptsShown es"

fun listingsMade :: "event list \<Rightarrow> nat" where
  "listingsMade [] = 0"
| "listingsMade (PollSSHKeys # es) = Suc (listingsMade es)"
| "listingsMade (e # es) = listingsMade es"


subsection \<open>Sample inputs\<close>

definition noFlags :: args where
  "noFlags =
     \<lparr> arg_image = None, arg_location = None, arg_var = None, arg_label = None,
       allSshKeys = None, sshKeyId = None, arg_vcpu = None, arg_memory = None, ipv4 = None \<rparr>"

definition keyOne :: SSHPublicKeyItem where
  "keyOne = \<lparr> key_id = ''k1'', key_name = ''laptop'' \<rparr>"

definition keyTwo :: SSHPublicKeyItem where
  "keyTwo = \<lparr> key_id = ''k2'', key_name = ''desktop'' \<rparr>"



definition worldWith :: "SSHPublicKeyItem list \<Rightarrow> Arg list \<Rightarrow> world" where
  "worldWith keyItems answers =
     \<lparr> sshKeys = Inr keyItems, promptAnswers = answers, deployment = Inr ''{}'', events = [] \<rparr>"

section \<open>Properties\<close>

subsection \<open>Auxiliary facts\<close>

text \<open>Reading a log distributes over appending to it.\<close>

lemma promptsShown_append: "promptsShown (xs @ ys) = promptsShown xs @ promptsShown ys"
  by (induction xs rule: promptsShown.induct) simp_all

lemma listingsMade_append: "listingsMade (xs @ ys) = listingsMade xs + listingsMade ys"
  by (induction xs rule: listingsMade.induct) simp_all

lemma promptsShown_map: "promptsShown (map InputPrompt ps) = ps"
  by (induction ps) simp_all

lemma listingsMade_map: "listingsMade (map InputPrompt ps) = 0"
  by (induction ps) simp_all

lemma ask_listing_fails:
  assumes "sshKeys w = Inl e"
  shows "askWhichSSHKeysDoTheyWantToAdd a key w = (Threw e, emit PollSSHKeys w)"
  using assms by (simp add: askWhichSSHKeysDoTheyWantToAdd_def pollSSHKeysUntilCondition_def)

lemma ask_all:
  assumes "allSshKeys a = Some True" and "sshKeys w = Inr keyItems"
  shows "askWhichSSHKeysDoTheyWantToAdd a key w =
           (Returned (ArgArray (map key_id keyItems)), emit PollSSHKeys w)"
  using assms by (simp add: askWhichSSHKeysDoTheyWantToAdd_def pollSSHKeysUntilCondition_def)

lemma ask_explicit:
  assumes "allSshKeys a \<noteq> Some True" and "sshKeyId a = Some ids" and "ids \<noteq> []"
    and "sshKeys w = Inr keyItems"
  shows "askWhichSSHKeysDoTheyWantToAdd a key w =
           (Returned (ArgArray (if truthy (optString key) then ids @ [the key] else ids)),
            emit PollSSHKeys w)"
  using assms by (simp add: askWhichSSHKeysDoTheyWantToAdd_def pollSSHKeysUntilCondition_def)

lemma ask_no_keys:
  assumes "allSshKeys a \<noteq> Some True" and "sshKeyId a = None \<or> sshKeyId a = Some []"
    and "sshKeys w = Inr []"
  shows "askWhichSSHKeysDoTheyWantToAdd a key w = (Returned (ArgArray []), emit PollSSHKeys w)"
  using assms by (auto simp add: askWhichSSHKeysDoTheyWantToAdd_def pollSSHKeysUntilCondition_def)

lemma ask_one_key:
  assumes "allSshKeys a \<noteq> Some True" and "sshKeyId a = None \<or> sshKeyId a = Some []"
    and "sshKeys w = Inr [k]"
  shows "askWhichSSHKeysDoTheyWantToAdd a key w =
           (case promptAnswers w of
              [] \<Rightarrow> (Pending, emit (InputPrompt (confirmSingleKeyPrompt [k])) (emit PollSSHKeys w))
            | yes # rest \<Rightarrow>
                (Returned (ArgArray (if truthy yes then [key_id k] else [])),
                 emit (InputPrompt (confirmSingleKeyPrompt [k]))
                   ((emit PollSSHKeys w)\<lparr>promptAnswers := rest\<rparr>)))"
  using assms
  by (auto simp add: askWhichSSHKeysDoTheyWantToAdd_def pollSSHKeysUntilCondition_def
      inputPrompt_def emit_def split: list.splits)

lemma ask_many_keys:
  assumes "allSshKeys a \<noteq> Some True" and "sshKeyId a = None \<or> sshKeyId a = Some []"
    and "sshKeys w = Inr keyItems" and "2 \<le> length keyItems"
  shows "askWhichSSHKeysDoTheyWantToAdd a key w =
           (case promptAnswers w of
              [] \<Rightarrow> (Pending, emit (InputPrompt chooseModePrompt) (emit PollSSHKeys w))
            | res # rest \<Rightarrow>
                (let w2 = emit (InputPrompt chooseModePrompt) ((emit PollSSHKeys w)\<lparr>promptAnswers := rest\<rparr>) in
                 if res = ArgString ''all'' then (Returned (ArgArray (map key_id keyItems)), w2)
                 else if res = ArgString ''select'' then
                   (case rest of
                      [] \<Rightarrow> (Pending, emit (InputPrompt (selectKeysPrompt keyItems)) w2)
                    | resKeys # rest' \<Rightarrow>
                        (Returned resKeys,
                         emit (InputPrompt (selectKeysPrompt keyItems)) (w2\<lparr>promptAnswers := rest'\<rparr>)))
                 else (Returned (ArgArray []), w2)))"
  using assms
  by (auto simp add: askWhichSSHKeysDoTheyWantToAdd_def pollSSHKeysUntilCondition_def
      inputPrompt_def emit_def Let_def split: list.splits)





lemma key_count_cases:
  obtains "keyItems = []" | k where "keyItems = [k]" | "2 \<le> length keyItems"
proof (cases keyItems)
  case Nil
  then show ?thesis using that by simp
next
  case (Cons k ks)
  then show ?thesis using that by (cases ks) simp_all
qed

lemma ask_one_key_events:
  assumes "allSshKeys a \<noteq> Some True" and "sshKeyId a = None \<or> sshKeyId a = Some []"
    and "sshKeys w = Inr [k]"
  shows "events (snd (askWhichSSHKeysDoTheyWantToAdd a key w)) =
           events w @ [PollSSHKeys, InputPrompt (confirmSingleKeyPrompt [k])]"
  unfolding ask_one_key[OF assms] by (cases "promptAnswers w") (simp_all add: emit_def)

lemma ask_many_keys_events:
  assumes "allSshKeys a \<noteq> Some True" and "sshKeyId a = None \<or> sshKeyId a = Some []"
    and "sshKeys w = Inr keyItems" and "2 \<le> length keyItems"
  shows "events (snd (askWhichSSHKeysDoTheyWantToAdd a key w)) =
           events w @ [PollSSHKeys, InputPrompt chooseModePrompt] @
             (if \<exists>rest. promptAnswers w = ArgString ''select'' # rest
              then [InputPrompt (selectKeysPrompt keyItems)] else [])"
proof (cases "promptAnswers w")
  case Nil
  then show ?thesis unfolding ask_many_keys[OF assms] by (simp add: emit_def)
next
  case (Cons res rest)
  then show ?thesis unfolding ask_many_keys[OF assms]
    by (cases rest) (simp_all add: emit_def Let_def)
qed







lemma ask_events:
  "\<exists>ps. events (snd (askWhichSSHKeysDoTheyWantToAdd a key w)) = events w @ PollSSHKeys # map InputPrompt ps
     \<and> length ps \<le> 2
     \<and> (length ps = 2 \<longrightarrow> allSshKeys a \<noteq> Some True \<and> (sshKeyId a = None \<or> sshKeyId a = Some [])
           \<and> (\<exists>keyItems rest. sshKeys w = Inr keyItems \<and> 2 \<le> length keyItems \<and> promptAnswers w = ArgString ''select'' # rest))"
  (is "\<exists>ps. ?P ps")
proof (cases "sshKeys w")
  case (Inl e)
  have step: "?P []" unfolding ask_listing_fails[OF Inl] by (simp add: emit_def)
  show ?thesis by (rule exI, rule step)
next
  case (Inr keyItems)
  show ?thesis
  proof (cases "allSshKeys a = Some True")
    case all: True
    have step: "?P []" unfolding ask_all[OF all Inr] by (simp add: emit_def)
    show ?thesis by (rule exI, rule step)
  next
    case notAll: False
    show ?thesis
    proof (cases "sshKeyId a = None \<or> sshKeyId a = Some []")
      case someIds: False
      then obtain ids where ids: "sshKeyId a = Some ids" "ids \<noteq> []" by auto
      have step: "?P []" unfolding ask_explicit[OF notAll ids Inr] by (simp add: emit_def)
      show ?thesis by (rule exI, rule step)
    next
      case noIds: True
      show ?thesis
      proof (cases keyItems rule: key_count_cases)
        case 1
        have none: "sshKeys w = Inr []" using Inr 1 by simp
        have step: "?P []" unfolding ask_no_keys[OF notAll noIds none] by (simp add: emit_def)
        show ?thesis by (rule exI, rule step)
      next
        case (2 k)
        have one: "sshKeys w = Inr [k]" using Inr 2 by simp
        have step: "?P [confirmSingleKeyPrompt [k]]"
          unfolding ask_one_key_events[OF notAll noIds one] by simp
        show ?thesis by (rule exI, rule step)
      next
        case 3
        note ev = ask_many_keys_events[OF notAll noIds Inr 3, of key]
        show ?thesis
        proof (cases "\<exists>rest. promptAnswers w = ArgString ''select'' # rest")
          case sel: True
          have step: "?P [chooseModePrompt, selectKeysPrompt keyItems]"
            unfolding ev if_P[OF sel] using sel notAll noIds Inr 3 by simp
          show ?thesis by (rule exI, rule step)
        next
          case notSel: False
          have step: "?P [chooseModePrompt]"
            unfolding ev if_not_P[OF notSel] by simp
          show ?thesis by (rule exI, rule step)
        qed
      qed
    qed
  qed
qed

text \<open>What the validation callback accepts.\<close>

lemma validateSelection_accepts:
  "validateSelection v = None \<longleftrightarrow> (\<exists>xs. v = ArgArray xs \<and> xs \<noteq> [])"
  by (cases v) (simp_all add: validateSelection_def)








subsection \<open>The number of prompts\<close>

text \<open>
  Claim C1, as stated: at most one interactive prompt is shown per invocation. This
  fails where the account has two keys, no flag is set and the user answers the
  three-way choice with "select": the multi-select is then shown as a second prompt.
\<close>

theorem select_shows_two_prompts:
  "length (promptsShown (events (snd (askWhichSSHKeysDoTheyWantToAdd noFlags None
      (worldWith [keyOne, keyTwo] [ArgString ''select'', ArgArray [''k2'']]))))) = 2
   \<and> \<not> length (promptsShown (events (snd (askWhichSSHKeysDoTheyWantToAdd noFlags None
      (worldWith [keyOne, keyTwo] [ArgString ''select'', ArgArray [''k2'']]))))) \<le> 1"
  by (simp add: askWhichSSHKeysDoTheyWantToAdd_def pollSSHKeysUntilCondition_def
      inputPrompt_def emit_def noFlags_def worldWith_def keyOne_def keyTwo_def)

text \<open>
  Claim C1, amended: whatever the flags and the answers, an invocation shows at most two
  interactive prompts, and it shows more than one only where neither flag decides, the
  account has two or more keys and the three-way choice is answered "select".
\<close>

theorem prompts_at_most_two:
  "length (promptsShown (events (snd (askWhichSSHKeysDoTheyWantToAdd a key w))))
     \<le> length (promptsShown (events w)) + 2
   \<and> (length (promptsShown (events w)) + 1
         < length (promptsShown (events (snd (askWhichSSHKeysDoTheyWantToAdd a key w))))
       \<longrightarrow> allSshKeys a \<noteq> Some True \<and> (sshKeyId a = None \<or> sshKeyId a = Some [])
           \<and> (\<exists>keyItems rest. sshKeys w = Inr keyItems \<and> 2 \<le> length keyItems
                 \<and> promptAnswers w = ArgString ''select'' # rest))"
proof -
  obtain ps where ev: "events (snd (askWhichSSHKeysDoTheyWantToAdd a key w)) =
      events w @ PollSSHKeys # map InputPrompt ps"
    and le: "length ps \<le> 2"
    and two: "length ps = 2 \<longrightarrow> allSshKeys a \<noteq> Some True \<and> (sshKeyId a = None \<or> sshKeyId a = Some [])
           \<and> (\<exists>keyItems rest. sshKeys w = Inr keyItems \<and> 2 \<le> length keyItems
                 \<and> promptAnswers w = ArgString ''select'' # rest)"
    using ask_events[of a key w] by blast
  have n: "length (promptsShown (events (snd (askWhichSSHKeysDoTheyWantToAdd a key w))))
      = length (promptsShown (events w)) + length ps"
    by (simp add: ev promptsShown_append promptsShown_map)
  have "length (promptsShown (events w)) + 1 < length (promptsShown (events w)) + length ps
      \<Longrightarrow> length ps = 2" using le by arith
  then show ?thesis unfolding n using le two by simp
qed

theorem prompts_at_most_two_witness:
  "length (promptsShown (events (snd (askWhichSSHKeysDoTheyWantToAdd noFlags None
      (worldWith [keyOne, keyTwo] [ArgString ''select'', ArgArray [''k2'']]))))) = 2
   \<and> promptAnswers (worldWith [keyOne, keyTwo] [ArgString ''select'', ArgArray [''k2'']])
        = ArgString ''select'' # [ArgArray [''k2'']]
   \<and> length (promptsShown (events (snd (askWhichSSHKeysDoTheyWantToAdd noFlags (Some ''k9'')
      (worldWith [keyOne] [ArgBoolean True]))))) \<le> 2"
  using prompts_at_most_two[of noFlags None "worldWith [keyOne, keyTwo] [ArgString ''select'', ArgArray [''k2'']]"]
    prompts_at_most_two[of noFlags "Some ''k9''" "worldWith [keyOne] [ArgBoolean True]"]
  by (simp add: askWhichSSHKeysDoTheyWantToAdd_def pollSSHKeysUntilCondition_def
      inputPrompt_def emit_def noFlags_def worldWith_def keyOne_def keyTwo_def)

subsection \<open>Explicit key identifiers\<close>

text \<open>
  Claim C2, as stated: with \<open>allSshKeys\<close> not true and a non-empty list of explicit
  identifiers, the already chosen key is appended if and only if it was provided. The
  code tests the key for truthiness, so a key that is provided as the empty string is
  not appended.
\<close>

theorem empty_chosen_key_not_appended:
  "fst (askWhichSSHKeysDoTheyWantToAdd (noFlags\<lparr>allSshKeys := Some False, sshKeyId := Some [''k1'']\<rparr>)
         (Some '''') (worldWith [keyOne, keyTwo] []))
     = Returned (ArgArray [''k1''])
   \<and> fst (askWhichSSHKeysDoTheyWantToAdd (noFlags\<lparr>allSshKeys := Some False, sshKeyId := Some [''k1'']\<rparr>)
         (Some '''') (worldWith [keyOne, keyTwo] []))
     \<noteq> Returned (ArgArray ([''k1''] @ ['''']))"
  by (simp add: askWhichSSHKeysDoTheyWantToAdd_def pollSSHKeysUntilCondition_def
      inputPrompt_def emit_def noFlags_def worldWith_def keyOne_def keyTwo_def)

text \<open>
  Claim C2, amended: with \<open>allSshKeys\<close> not true and a non-empty list of explicit
  identifiers, the result is that list, with the already chosen key appended at the end
  if and only if it was provided and is not the empty string, also when it repeats an
  entry of the list; nothing is removed, the only call made is the key listing and no
  prompt is shown.
\<close>

theorem explicit_ids_then_chosen_key:
  assumes "allSshKeys a \<noteq> Some True" and "sshKeyId a = Some ids" and "ids \<noteq> []"
    and "sshKeys w = Inr keyItems"
  shows "askWhichSSHKeysDoTheyWantToAdd a key w =
           (Returned (ArgArray (case key of
                                  None \<Rightarrow> ids
                                | Some k \<Rightarrow> if k = [] then ids else ids @ [k])),
            emit PollSSHKeys w)
         \<and> promptsShown (events (snd (askWhichSSHKeysDoTheyWantToAdd a key w)))
             = promptsShown (events w)"
  unfolding ask_explicit[OF assms]
  by (cases key) (simp_all add: emit_def promptsShown_append)

theorem explicit_ids_then_chosen_key_witness:
  "askWhichSSHKeysDoTheyWantToAdd (noFlags\<lparr>sshKeyId := Some [''k1'', ''k7'']\<rparr>) (Some ''k1'')
       (worldWith [keyOne, keyTwo] [ArgString ''all''])
     = (Returned (ArgArray [''k1'', ''k7'', ''k1'']),
        emit PollSSHKeys (worldWith [keyOne, keyTwo] [ArgString ''all'']))
   \<and> fst (askWhichSSHKeysDoTheyWantToAdd (noFlags\<lparr>sshKeyId := Some [''k1'', ''k7'']\<rparr>) None
       (worldWith [keyOne, keyTwo] [ArgString ''all'']))
     = Returned (ArgArray [''k1'', ''k7''])"
  using explicit_ids_then_chosen_key[of "noFlags\<lparr>sshKeyId := Some [''k1'', ''k7'']\<rparr>" "[''k1'', ''k7'']"
      "worldWith [keyOne, keyTwo] [ArgString ''all'']" "[keyOne, keyTwo]" "Some ''k1''"]
    explicit_ids_then_chosen_key[of "noFlags\<lparr>sshKeyId := Some [''k1'', ''k7'']\<rparr>" "[''k1'', ''k7'']"
      "worldWith [keyOne, keyTwo] [ArgString ''all'']" "[keyOne, keyTwo]" None]
  by (simp add: noFlags_def worldWith_def)

subsection \<open>The all-keys flag\<close>

text \<open>
  Claim C3: with \<open>allSshKeys\<close> true, the result is the list of the identifiers of all
  the keys the listing returns, in its order, whatever the explicit identifiers and the
  already chosen key are; the only call made is the key listing, and no prompt is shown.
\<close>

theorem allSshKeys_returns_every_key:
  assumes "allSshKeys a = Some True" and "sshKeys w = Inr keyItems"
  shows "askWhichSSHKeysDoTheyWantToAdd a key w =
           (Returned (ArgArray (map key_id keyItems)), emit PollSSHKeys w)
         \<and> promptsShown (events (snd (askWhichSSHKeysDoTheyWantToAdd a key w)))
             = promptsShown (events w)"
  unfolding ask_all[OF assms] by (simp add: emit_def promptsShown_append)

theorem allSshKeys_returns_every_key_witness:
  "askWhichSSHKeysDoTheyWantToAdd (noFlags\<lparr>allSshKeys := Some True, sshKeyId := Some [''k7'']\<rparr>)
       (Some ''k9'') (worldWith [keyTwo, keyOne] [ArgBoolean False])
     = (Returned (ArgArray [''k2'', ''k1'']),
        emit PollSSHKeys (worldWith [keyTwo, keyOne] [ArgBoolean False]))"
  using allSshKeys_returns_every_key[of "noFlags\<lparr>allSshKeys := Some True, sshKeyId := Some [''k7'']\<rparr>"
      "worldWith [keyTwo, keyOne] [ArgBoolean False]" "[keyTwo, keyOne]" "Some ''k9''"]
  by (simp add: noFlags_def worldWith_def keyOne_def keyTwo_def)

subsection \<open>One key: the confirmation\<close>

text \<open>
  Claim C4: with neither flag deciding and exactly one key in the account, the key
  listing is followed by one yes/no confirmation whose default is "no". The result is
  the list of that one key's identifier where the answer is truthy ("yes"), and the empty
  list where it is not ("no", which is also what the default delivers, or no value).
\<close>

theorem single_key_is_confirmed:
  assumes "allSshKeys a \<noteq> Some True" and "sshKeyId a = None \<or> sshKeyId a = Some []"
    and "sshKeys w = Inr [k]" and "promptAnswers w = yes # rest"
  shows "fst (askWhichSSHKeysDoTheyWantToAdd a key w)
           = Returned (ArgArray (if truthy yes then [key_id k] else []))
         \<and> events (snd (askWhichSSHKeysDoTheyWantToAdd a key w))
             = events w @ [PollSSHKeys, InputPrompt (confirmSingleKeyPrompt [k])]
         \<and> prompt_type (confirmSingleKeyPrompt [k]) = Confirm
         \<and> defaultValue (confirmSingleKeyPrompt [k]) = ArgBoolean False"
  unfolding ask_one_key[OF assms(1-3)] using assms(4)
  by (simp add: emit_def confirmSingleKeyPrompt_def)

theorem single_key_is_confirmed_witness:
  "fst (askWhichSSHKeysDoTheyWantToAdd noFlags None (worldWith [keyOne] [ArgBoolean True]))
     = Returned (ArgArray [''k1''])
   \<and> fst (askWhichSSHKeysDoTheyWantToAdd noFlags None (worldWith [keyOne] [ArgBoolean False]))
     = Returned (ArgArray [])
   \<and> fst (askWhichSSHKeysDoTheyWantToAdd noFlags None (worldWith [keyOne] [ArgUndefined]))
     = Returned (ArgArray [])"
  using single_key_is_confirmed[of noFlags "worldWith [keyOne] [ArgBoolean True]" keyOne "ArgBoolean True" "[]" None]
    single_key_is_confirmed[of noFlags "worldWith [keyOne] [ArgBoolean False]" keyOne "ArgBoolean False" "[]" None]
    single_key_is_confirmed[of noFlags "worldWith [keyOne] [ArgUndefined]" keyOne "ArgUndefined" "[]" None]
  by (simp add: noFlags_def worldWith_def keyOne_def)

subsection \<open>No key\<close>

text \<open>
  Claim C6: with neither flag deciding and no key in the account, the result is the
  empty list; the only call made is the key listing, and no prompt is shown.
\<close>

theorem no_keys_no_prompt:
  assumes "allSshKeys a \<noteq> Some True" and "sshKeyId a = None \<or> sshKeyId a = Some []"
    and "sshKeys w = Inr []"
  shows "askWhichSSHKeysDoTheyWantToAdd a key w = (Returned (ArgArray []), emit PollSSHKeys w)
         \<and> promptsShown (events (snd (askWhichSSHKeysDoTheyWantToAdd a key w)))
             = promptsShown (events w)"
  unfolding ask_no_keys[OF assms] by (simp add: emit_def promptsShown_append)

theorem no_keys_no_prompt_witness:
  "askWhichSSHKeysDoTheyWantToAdd (noFlags\<lparr>sshKeyId := Some []\<rparr>) (Some ''k9'') (worldWith [] [ArgBoolean True])
     = (Returned (ArgArray []), emit PollSSHKeys (worldWith [] [ArgBoolean True]))"
  using no_keys_no_prompt[of "noFlags\<lparr>sshKeyId := Some []\<rparr>" "worldWith [] [ArgBoolean True]" "Some ''k9''"]
  by (simp add: noFlags_def worldWith_def)

subsection \<open>The already chosen key\<close>

text \<open>
  Claim C9: where \<open>allSshKeys\<close> is true or there are no explicit identifiers, two
  invocations that differ only in the already chosen key run alike: same result, same
  calls, same world afterwards. In particular, with no flag set, a key that was just
  created is not added to the result on its own account.
\<close>

theorem chosen_key_ignored_without_explicit_ids:
  assumes "allSshKeys a = Some True \<or> sshKeyId a = None \<or> sshKeyId a = Some []"
  shows "askWhichSSHKeysDoTheyWantToAdd a key w = askWhichSSHKeysDoTheyWantToAdd a key' w"
  using assms
  by (cases "sshKeys w")
    (auto simp add: askWhichSSHKeysDoTheyWantToAdd_def pollSSHKeysUntilCondition_def Let_def)

theorem chosen_key_ignored_without_explicit_ids_witness:
  "askWhichSSHKeysDoTheyWantToAdd noFlags (Some ''k9'') (worldWith [keyOne] [ArgBoolean False])
     = askWhichSSHKeysDoTheyWantToAdd noFlags None (worldWith [keyOne] [ArgBoolean False])
   \<and> fst (askWhichSSHKeysDoTheyWantToAdd noFlags (Some ''k9'') (worldWith [keyOne] [ArgBoolean False]))
     = Returned (ArgArray [])"
  using chosen_key_ignored_without_explicit_ids[of noFlags "Some ''k9''" "worldWith [keyOne] [ArgBoolean False]" None]
  by (simp add: askWhichSSHKeysDoTheyWantToAdd_def pollSSHKeysUntilCondition_def
      inputPrompt_def emit_def noFlags_def worldWith_def keyOne_def keyTwo_def)

subsection \<open>Two or more keys: the three-way choice\<close>

text \<open>
  Claim C5: with neither flag deciding and two or more keys in the account, the key
  listing is followed by a single-choice prompt with the three values "all", "select"
  and "none". The result is the list of all identifiers for the answer "all"; for
  "select" the multi-select over the keys follows and the result is what it delivers, as
  it is; for "none" and for every other answer the result is the empty list, returned
  normally.
\<close>

theorem several_keys_three_way_choice:
  assumes "allSshKeys a \<noteq> Some True" and "sshKeyId a = None \<or> sshKeyId a = Some []"
    and "sshKeys w = Inr keyItems" and "2 \<le> length keyItems"
    and "promptAnswers w = res # rest"
  shows "fst (askWhichSSHKeysDoTheyWantToAdd a key w) =
           (if res = ArgString ''all'' then Returned (ArgArray (map key_id keyItems))
            else if res = ArgString ''select''
              then (case rest of [] \<Rightarrow> Pending | resKeys # _ \<Rightarrow> Returned resKeys)
            else Returned (ArgArray []))
         \<and> events (snd (askWhichSSHKeysDoTheyWantToAdd a key w)) =
             events w @ [PollSSHKeys, InputPrompt chooseModePrompt] @
               (if res = ArgString ''select'' then [InputPrompt (selectKeysPrompt keyItems)] else [])
         \<and> prompt_type chooseModePrompt = Select
         \<and> map opt_value (the (options chooseModePrompt)) = [''all'', ''select'', ''none'']
         \<and> prompt_type (selectKeysPrompt keyItems) = Multiselect
         \<and> map opt_value (the (options (selectKeysPrompt keyItems))) = map key_id keyItems"
proof -
  have r: "fst (askWhichSSHKeysDoTheyWantToAdd a key w) =
           (if res = ArgString ''all'' then Returned (ArgArray (map key_id keyItems))
            else if res = ArgString ''select''
              then (case rest of [] \<Rightarrow> Pending | resKeys # _ \<Rightarrow> Returned resKeys)
            else Returned (ArgArray []))"
    unfolding ask_many_keys[OF assms(1-4)] using assms(5)
    by (cases rest) (simp_all add: Let_def)
  have e: "events (snd (askWhichSSHKeysDoTheyWantToAdd a key w)) =
             events w @ [PollSSHKeys, InputPrompt chooseModePrompt] @
               (if res = ArgString ''select'' then [InputPrompt (selectKeysPrompt keyItems)] else [])"
    unfolding ask_many_keys_events[OF assms(1-4)] using assms(5) by simp
  have c: "prompt_type chooseModePrompt = Select"
    "map opt_value (the (options chooseModePrompt)) = [''all'', ''select'', ''none'']"
    by (simp_all add: chooseModePrompt_def)
  have s: "prompt_type (selectKeysPrompt keyItems) = Multiselect"
    "map opt_value (the (options (selectKeysPrompt keyItems))) = map key_id keyItems"
    by (simp_all add: selectKeysPrompt_def comp_def)
  show ?thesis using r e c s by simp
qed

theorem several_keys_three_way_choice_witness:
  "fst (askWhichSSHKeysDoTheyWantToAdd noFlags None (worldWith [keyOne, keyTwo] [ArgString ''all'']))
     = Returned (ArgArray [''k1'', ''k2''])
   \<and> fst (askWhichSSHKeysDoTheyWantToAdd noFlags None (worldWith [keyOne, keyTwo] [ArgString ''none'']))
     = Returned (ArgArray [])
   \<and> fst (askWhichSSHKeysDoTheyWantToAdd noFlags None
        (worldWith [keyOne, keyTwo] [ArgString ''select'', ArgArray [''k2'']]))
     = Returned (ArgArray [''k2''])
   \<and> fst (askWhichSSHKeysDoTheyWantToAdd noFlags None (worldWith [keyOne, keyTwo] [ArgString ''other'']))
     = Returned (ArgArray [])"
  using several_keys_three_way_choice[of noFlags "worldWith [keyOne, keyTwo] [ArgString ''all'']"
      "[keyOne, keyTwo]" "ArgString ''all''" "[]" None]
    several_keys_three_way_choice[of noFlags "worldWith [keyOne, keyTwo] [ArgString ''none'']"
      "[keyOne, keyTwo]" "ArgString ''none''" "[]" None]
    several_keys_three_way_choice[of noFlags "worldWith [keyOne, keyTwo] [ArgString ''select'', ArgArray [''k2'']]"
      "[keyOne, keyTwo]" "ArgString ''select''" "[ArgArray [''k2'']]" None]
    several_keys_three_way_choice[of noFlags "worldWith [keyOne, keyTwo] [ArgString ''other'']"
      "[keyOne, keyTwo]" "ArgString ''other''" "[]" None]
  by (simp add: noFlags_def worldWith_def keyOne_def keyTwo_def)

subsection \<open>The validation of the multi-select\<close>

text \<open>
  Claim C7: the multi-select is given the validation callback, which rejects the empty
  selection with a message, rejects every value that is not an array with a message, and
  accepts every non-empty array. Hence, in a run through the "select" branch in which
  the prompt delivers a value the callback accepts, the function returns a non-empty
  list.
\<close>

theorem selection_is_validated:
  assumes "allSshKeys a \<noteq> Some True" and "sshKeyId a = None \<or> sshKeyId a = Some []"
    and "sshKeys w = Inr keyItems" and "2 \<le> length keyItems"
    and "promptAnswers w = ArgString ''select'' # resKeys # rest"
    and "validateSelection resKeys = None"
  shows "validate (last (promptsShown (events (snd (askWhichSSHKeysDoTheyWantToAdd a key w)))))
           = Some validateSelection
         \<and> validateSelection (ArgArray []) = Some ''Select atleast one ssh key!''
         \<and> (\<forall>v. (\<forall>xs. v \<noteq> ArgArray xs) \<longrightarrow> validateSelection v = Some ''unknown error'')
         \<and> (\<forall>xs. xs \<noteq> [] \<longrightarrow> validateSelection (ArgArray xs) = None)
         \<and> (\<exists>xs. fst (askWhichSSHKeysDoTheyWantToAdd a key w) = Returned (ArgArray xs) \<and> xs \<noteq> [])"
proof -
  have e: "promptsShown (events (snd (askWhichSSHKeysDoTheyWantToAdd a key w)))
      = promptsShown (events w) @ [chooseModePrompt, selectKeysPrompt keyItems]"
    unfolding ask_many_keys_events[OF assms(1-4)] using assms(5)
    by (simp add: promptsShown_append)
  have v1: "validate (last (promptsShown (events (snd (askWhichSSHKeysDoTheyWantToAdd a key w)))))
           = Some validateSelection"
    unfolding e by (simp add: selectKeysPrompt_def)
  have v2: "validateSelection (ArgArray []) = Some ''Select atleast one ssh key!''"
    by (simp add: validateSelection_def)
  have v3: "\<forall>v. (\<forall>xs. v \<noteq> ArgArray xs) \<longrightarrow> validateSelection v = Some ''unknown error''"
  proof (intro allI impI)
    fix v assume "\<forall>xs. v \<noteq> ArgArray xs"
    then show "validateSelection v = Some ''unknown error''"
      by (cases v) (simp_all add: validateSelection_def)
  qed
  have v4: "\<forall>xs. xs \<noteq> [] \<longrightarrow> validateSelection (ArgArray xs) = None"
    by (simp add: validateSelection_def)
  have r: "fst (askWhichSSHKeysDoTheyWantToAdd a key w) = Returned resKeys"
    unfolding ask_many_keys[OF assms(1-4)] using assms(5) by (simp add: Let_def)
  obtain xs where "resKeys = ArgArray xs" "xs \<noteq> []"
    using assms(6) validateSelection_accepts by blast
  with r have v5: "\<exists>xs. fst (askWhichSSHKeysDoTheyWantToAdd a key w) = Returned (ArgArray xs) \<and> xs \<noteq> []"
    by simp
  show ?thesis using v1 v2 v3 v4 v5 by (intro conjI)
qed

theorem selection_is_validated_witness:
  "validateSelection (ArgArray []) = Some ''Select atleast one ssh key!''
   \<and> validateSelection (ArgString ''k2'') = Some ''unknown error''
   \<and> validateSelection ArgUndefined = Some ''unknown error''
   \<and> validateSelection (ArgArray [''k2'']) = None
   \<and> fst (askWhichSSHKeysDoTheyWantToAdd noFlags None
        (worldWith [keyOne, keyTwo] [ArgString ''select'', ArgArray [''k2'']]))
       = Returned (ArgArray [''k2''])"
  using selection_is_validated[of noFlags "worldWith [keyOne, keyTwo] [ArgString ''select'', ArgArray [''k2'']]"
      "[keyOne, keyTwo]" "ArgArray [''k2'']" "[]" None]
  by (simp add: askWhichSSHKeysDoTheyWantToAdd_def pollSSHKeysUntilCondition_def
      inputPrompt_def emit_def noFlags_def worldWith_def keyOne_def keyTwo_def validateSelection_def)

subsection \<open>The key listing\<close>

text \<open>
  Claim C8: every invocation makes exactly one key listing, and it is the first of its
  calls: the calls the invocation adds to the log are the listing followed by prompts
  only. This holds on every path, also where the flags decide and where the listing
  fails.
\<close>

theorem one_listing_before_any_prompt:
  "\<exists>ps. events (snd (askWhichSSHKeysDoTheyWantToAdd a key w))
           = events w @ PollSSHKeys # map InputPrompt ps
        \<and> listingsMade (events (snd (askWhichSSHKeysDoTheyWantToAdd a key w)))
           = listingsMade (events w) + 1"
proof -
  obtain ps where ev: "events (snd (askWhichSSHKeysDoTheyWantToAdd a key w)) =
      events w @ PollSSHKeys # map InputPrompt ps"
    using ask_events[of a key w] by blast
  have "listingsMade (events (snd (askWhichSSHKeysDoTheyWantToAdd a key w)))
           = listingsMade (events w) + 1"
    by (simp add: ev listingsMade_append listingsMade_map)
  with ev show ?thesis by blast
qed

theorem one_listing_before_any_prompt_witness:
  "listingsMade (events (snd (askWhichSSHKeysDoTheyWantToAdd
       (noFlags\<lparr>allSshKeys := Some True\<rparr>) None (worldWith [keyOne, keyTwo] [])))) = 1
   \<and> hd (events (snd (askWhichSSHKeysDoTheyWantToAdd noFlags None
       (worldWith [keyOne, keyTwo] [ArgString ''select'', ArgArray [''k2'']])))) = PollSSHKeys
   \<and> listingsMade (events (snd (askWhichSSHKeysDoTheyWantToAdd noFlags None
       (worldWith [keyOne, keyTwo] [ArgString ''select'', ArgArray [''k2'']])))) = 1"
  using one_listing_before_any_prompt[of "noFlags\<lparr>allSshKeys := Some True\<rparr>" None "worldWith [keyOne, keyTwo] []"]
    one_listing_before_any_prompt[of noFlags None
      "worldWith [keyOne, keyTwo] [ArgString ''select'', ArgArray [''k2'']]"]
  by (simp add: askWhichSSHKeysDoTheyWantToAdd_def pollSSHKeysUntilCondition_def
      inputPrompt_def emit_def noFlags_def worldWith_def keyOne_def keyTwo_def)

subsection \<open>The non-interactive path of createCommand\<close>



end
